theory Spec2Isabelle
  imports Main
begin

section \<open>Values of the program\<close>

text \<open>
  The entry points take \<^verbatim>\<open>path: string | URL\<close>. A template literal and
  \<^verbatim>\<open>path.toString()\<close> render a string as itself and a URL as its href.
\<close>

datatype path = PathString string | PathURL string

fun toString :: "path \<Rightarrow> string" where
  "toString (PathString s) = s"
| "toString (PathURL href) = href"

text \<open>
  What a \<^verbatim>\<open>throw\<close> carries: an error raised by the runtime (an instance of a class of
  \<^verbatim>\<open>Deno.errors\<close>), or \<^verbatim>\<open>new Error(message, { cause })\<close> built by the program.
\<close>

datatype deno_errors =
  NotFound | PermissionDenied | NotCapable | NotADirectory | OtherClass string

datatype exn = DenoError deno_errors | Error string "exn option"

text \<open>\<^verbatim>\<open>error instanceof Deno.errors.NotFound\<close>\<close>

fun instanceof_NotFound :: "exn \<Rightarrow> bool" where
  "instanceof_NotFound (DenoError NotFound) = True"
| "instanceof_NotFound _ = False"

text \<open>The two fields of \<^verbatim>\<open>Deno.FileInfo\<close> that the program reads.\<close>

record file_info =
  isFile :: bool
  isDirectory :: bool

text \<open>\<^verbatim>\<open>{ read: true }\<close> and \<^verbatim>\<open>{ write: true }\<close>, and the handle that open returns.\<close>

datatype open_options = OpenRead | OpenWrite

datatype fs_file = FsFile path open_options

text \<open>The \<^verbatim>\<open>state\<close> of a \<^verbatim>\<open>Deno.PermissionStatus\<close>.\<close>

datatype permission_state = Granted | Prompt | Denied

subsection \<open>AccessMode (types.ts)\<close>

text \<open>
  A numeric enum: at run time a mode is a number, and \<^verbatim>\<open>mode?\<close> may be absent
  (\<^verbatim>\<open>undefined\<close> or \<^verbatim>\<open>null\<close>, both \<open>None\<close> here).
\<close>

definition F_OK :: int where "F_OK = 0"
definition R_OK :: int where "R_OK = 4"
definition W_OK :: int where "W_OK = 2"
definition X_OK :: int where "X_OK = 1"

definition AccessMode2String :: "int option \<Rightarrow> string" where
  "AccessMode2String mode =
     (if mode = Some F_OK then ''Exists''
      else if mode = Some R_OK then ''Readable''
      else if mode = Some W_OK then ''Writable''
      else if mode = Some X_OK then ''Executable''
      else [])"

section \<open>The host runtime\<close>

text \<open>
  Every call the program makes on the runtime that touches the file system, the
  permission table or a subprocess is an event; the trace of a run is the list of its
  events in order.
\<close>

datatype event =
    EvStat path
  | EvOpen path open_options
  | EvClose fs_file
  | EvReadDir path
  | EvNext path "string option"
  | EvWriteTextFile path string
  | EvRemove path
  | EvQueryRun path
  | EvSpawn string "string list"

text \<open>
  The world the program runs in. \<open>nodes\<close> is the file-system namespace: which paths
  exist, and what \<^verbatim>\<open>stat\<close> reports for them. \<open>fails\<close> is what the host makes of an
  operation before the target is looked at: the runtime error it throws for a missing
  capability, permission bits, a path that runs through a regular file, a disk error or a
  vanished entry; \<open>None\<close> lets the operation through, and then a target that is absent
  from \<open>nodes\<close> is NotFound. \<open>dir_entries\<close> are the names an
  enumeration yields, \<open>run_permission\<close> the state of the run permission for a command,
  \<open>exit_code\<close> the exit status of a spawned command, \<open>clock\<close> the value of
  \<^verbatim>\<open>Date.now()\<close>, \<open>os\<close> the value of \<^verbatim>\<open>Deno.build.os\<close>.
\<close>

record world =
  os :: string
  clock :: int
  nodes :: "path \<Rightarrow> file_info option"
  dir_entries :: "path \<Rightarrow> string list"
  fails :: "event \<Rightarrow> deno_errors option"
  run_permission :: "path \<Rightarrow> permission_state"
  exit_code :: "string \<Rightarrow> string list \<Rightarrow> int"
  trace :: "event list"

text \<open>
  A computation runs in a world and returns a value or throws, leaving a world. A promise
  is its settled computation: fulfilled is \<open>Inr\<close>, rejected is \<open>Inl\<close>.
\<close>

type_synonym 'a io = "world \<Rightarrow> (exn + 'a) \<times> world"

definition io_return :: "'a \<Rightarrow> 'a io" where
  "io_return x w = (Inr x, w)"

definition io_throw :: "exn \<Rightarrow> 'a io" where
  "io_throw e w = (Inl e, w)"

definition io_bind :: "'a io \<Rightarrow> ('a \<Rightarrow> 'b io) \<Rightarrow> 'b io" where
  "io_bind m f w = (case m w of (Inl e, w') \<Rightarrow> (Inl e, w') | (Inr x, w') \<Rightarrow> f x w')"

text \<open>\<^verbatim>\<open>try { m } catch (error) { h(error) }\<close>\<close>

definition io_catch :: "'a io \<Rightarrow> (exn \<Rightarrow> 'a io) \<Rightarrow> 'a io" where
  "io_catch m h w = (case m w of (Inl e, w') \<Rightarrow> h e w' | (Inr x, w') \<Rightarrow> (Inr x, w'))"

text \<open>\<^verbatim>\<open>promise.then(f)\<close> and \<^verbatim>\<open>await promise\<close>\<close>

definition promise_then :: "'a io \<Rightarrow> ('a \<Rightarrow> 'b io) \<Rightarrow> 'b io" where
  "promise_then p f = io_bind p f"

definition await :: "'a io \<Rightarrow> 'a io" where
  "await p = p"

definition record_event :: "event \<Rightarrow> world \<Rightarrow> world" where
  "record_event ev w = w\<lparr>trace := trace w @ [ev]\<rparr>"

text \<open>
  An operation on an entry that must exist: the host may refuse it with an error of its
  own; when it does not, an absent entry is NotFound.
\<close>

definition on_entry :: "event \<Rightarrow> path \<Rightarrow> (file_info \<Rightarrow> 'a) \<Rightarrow> 'a io" where
  "on_entry ev p k w =
     (let w' = record_event ev w in
      case fails w ev of
        Some e \<Rightarrow> (Inl (DenoError e), w')
      | None \<Rightarrow>
          (case nodes w p of
             None \<Rightarrow> (Inl (DenoError NotFound), w')
           | Some info \<Rightarrow> (Inr (k info), w')))"

subsection \<open>Primitives, blocking\<close>

definition statSync :: "path \<Rightarrow> file_info io" where
  "statSync p = on_entry (EvStat p) p (\<lambda>info. info)"

definition openSync :: "path \<Rightarrow> open_options \<Rightarrow> fs_file io" where
  "openSync p opts = on_entry (EvOpen p opts) p (\<lambda>_. FsFile p opts)"

definition close :: "fs_file \<Rightarrow> unit io" where
  "close file w = (Inr (), record_event (EvClose file) w)"

text \<open>
  Reading a directory gives an iterator over its entries; \<^verbatim>\<open>iterator.next()\<close> fetches
  the first entry, or finds the end, and the trace records which.
\<close>

datatype dir_iterator = DirIterator path "string list"

definition readDirSync :: "path \<Rightarrow> dir_iterator io" where
  "readDirSync p w = on_entry (EvReadDir p) p (\<lambda>_. DirIterator p (dir_entries w p)) w"

fun iter_next :: "string list \<Rightarrow> string option" where
  "iter_next [] = None"
| "iter_next (x # xs) = Some x"

fun iterator_next :: "dir_iterator \<Rightarrow> string option io" where
  "iterator_next (DirIterator p entries) w =
     (Inr (iter_next entries), record_event (EvNext p (iter_next entries)) w)"

text \<open>
  Writing creates the entry as a regular file when it is absent and keeps an existing
  entry (contents are not part of the world); removing deletes the entry.
\<close>

definition writeTextFileSync :: "path \<Rightarrow> string \<Rightarrow> unit io" where
  "writeTextFileSync p data w =
     (let w' = record_event (EvWriteTextFile p data) w in
      case fails w (EvWriteTextFile p data) of
        Some e \<Rightarrow> (Inl (DenoError e), w')
      | None \<Rightarrow>
          (case nodes w p of
             Some _ \<Rightarrow> (Inr (), w')
           | None \<Rightarrow> (Inr (), w'\<lparr>nodes := (nodes w)(p \<mapsto> \<lparr>isFile = True, isDirectory = False\<rparr>)\<rparr>)))"

definition removeSync :: "path \<Rightarrow> unit io" where
  "removeSync p w =
     (let w' = record_event (EvRemove p) w in
      case fails w (EvRemove p) of
        Some e \<Rightarrow> (Inl (DenoError e), w')
      | None \<Rightarrow>
          (case nodes w p of
             None \<Rightarrow> (Inl (DenoError NotFound), w')
           | Some _ \<Rightarrow> (Inr (), w'\<lparr>nodes := (nodes w)(p := None)\<rparr>)))"

text \<open>\<^verbatim>\<open>Deno.permissions.querySync({ name: "run", command: path }).state\<close>\<close>

definition querySync_run :: "path \<Rightarrow> permission_state io" where
  "querySync_run p w = (Inr (run_permission w p), record_event (EvQueryRun p) w)"

text \<open>\<^verbatim>\<open>new Deno.Command(cmd, { args }).outputSync().code\<close>\<close>

definition outputSync :: "string \<Rightarrow> string list \<Rightarrow> int io" where
  "outputSync cmd args w =
     (let w' = record_event (EvSpawn cmd args) w in
      case fails w (EvSpawn cmd args) of
        Some e \<Rightarrow> (Inl (DenoError e), w')
      | None \<Rightarrow> (Inr (exit_code w cmd args), w'))"

definition build_os :: "string io" where
  "build_os w = (Inr (os w), w)"

definition Date_now :: "int io" where
  "Date_now w = (Inr (clock w), w)"

subsection \<open>Primitives, promise-returning\<close>

text \<open>Each settles to what its blocking counterpart returns or throws.\<close>

definition stat :: "path \<Rightarrow> file_info io" where
  "stat = statSync"

definition open_file :: "path \<Rightarrow> open_options \<Rightarrow> fs_file io" where
  "open_file = openSync"

definition readDir :: "path \<Rightarrow> dir_iterator io" where
  "readDir = readDirSync"

definition writeTextFile :: "path \<Rightarrow> string \<Rightarrow> unit io" where
  "writeTextFile = writeTextFileSync"

definition remove_entry :: "path \<Rightarrow> unit io" where
  "remove_entry = removeSync"

definition query_run :: "path \<Rightarrow> permission_state io" where
  "query_run = querySync_run"

definition command_output :: "string \<Rightarrow> string list \<Rightarrow> int io" where
  "command_output = outputSync"

section \<open>Strings\<close>

definition quote :: char where
  "quote = CHR 0x27"

text \<open>Decimal rendering of an integer-valued number in a template literal.\<close>

fun digits :: "nat \<Rightarrow> string" where
  "digits n =
     (if n < 10 then [''0123456789'' ! n]
      else digits (n div 10) @ [''0123456789'' ! (n mod 10)])"

definition number_toString :: "int \<Rightarrow> string" where
  "number_toString i = (if i < 0 then CHR ''-'' # digits (nat (- i)) else digits (nat i))"

text \<open>
  \<^verbatim>\<open>toLowerCase\<close> on the letters A to Z; any other character is kept. (No character
  outside A to Z lower-cases to a character of the four extensions below.)
\<close>

definition lower_char :: "char \<Rightarrow> char" where
  "lower_char c =
     (case map_of (zip ''ABCDEFGHIJKLMNOPQRSTUVWXYZ'' ''abcdefghijklmnopqrstuvwxyz'') c of
        Some l \<Rightarrow> l
      | None \<Rightarrow> c)"

definition toLowerCase :: "string \<Rightarrow> string" where
  "toLowerCase s = map lower_char s"

definition endsWith :: "string \<Rightarrow> string \<Rightarrow> bool" where
  "endsWith s t = (length t \<le> length s \<and> drop (length s - length t) s = t)"

section \<open>is_executable.ts\<close>

definition execExtensions :: "string list" where
  "execExtensions = [''.exe'', ''.cmd'', ''.bat'', ''.com'']"

definition isExecutable :: "path \<Rightarrow> bool io" where
  "isExecutable path =
     io_bind (await (stat path)) (\<lambda>fileInfo.
       if \<not> isFile fileInfo then io_return False
       else io_bind build_os (\<lambda>build_os.
         if build_os = ''windows'' then
           io_return (list_ex (\<lambda>ext. endsWith (toLowerCase (toString path)) ext) execExtensions)
         else io_bind (await (query_run path)) (\<lambda>permissions_state.
           if permissions_state \<noteq> Granted then io_return False
           else io_bind (await (command_output ''test'' [''-x'', toString path])) (\<lambda>code.
             io_return (code = 0)))))"

definition isExecutableSync :: "path \<Rightarrow> bool io" where
  "isExecutableSync path =
     io_bind (statSync path) (\<lambda>fileInfo.
       if \<not> isFile fileInfo then io_return False
       else io_bind build_os (\<lambda>build_os.
         if build_os = ''windows'' then
           io_return (list_ex (\<lambda>ext. endsWith (toLowerCase (toString path)) ext) execExtensions)
         else io_bind (querySync_run path) (\<lambda>permissions_state.
           if permissions_state \<noteq> Granted then io_return False
           else io_bind (outputSync ''test'' [''-x'', toString path]) (\<lambda>code.
             io_return (code = 0)))))"

section \<open>mod.ts\<close>

definition tempPath_of :: "path \<Rightarrow> int \<Rightarrow> path" where
  "tempPath_of path now =
     PathString (toString path @ ''/.deno_access_test_'' @ number_toString now)"

definition enoent_message :: "path \<Rightarrow> string" where
  "enoent_message path =
     ''ENOENT: no such file or directory, access '' @ [quote] @ toString path @ [quote]"

definition eacces_message :: "string \<Rightarrow> path \<Rightarrow> string" where
  "eacces_message what path =
     ''EACCES: permission denied, '' @ what @ '' '' @ [quote] @ toString path @ [quote]"

text \<open>The catch block, the same in both entry points.\<close>

definition access_catch :: "path \<Rightarrow> int option \<Rightarrow> exn \<Rightarrow> unit io" where
  "access_catch path mode error =
     (if instanceof_NotFound error then io_throw (Error (enoent_message path) (Some error))
      else io_throw (Error (eacces_message (AccessMode2String mode) path) (Some error)))"

text \<open>The try block of \<^verbatim>\<open>accessSync\<close>.\<close>

definition accessSync_try :: "path \<Rightarrow> int option \<Rightarrow> unit io" where
  "accessSync_try path mode =
     io_bind (statSync path) (\<lambda>fileInfo.
       case mode of
         None \<Rightarrow> io_return ()
       | Some m \<Rightarrow>
           if m = R_OK then
             (if isFile fileInfo then
                io_bind (openSync path OpenRead) (\<lambda>file. close file)
              else if isDirectory fileInfo then
                io_bind (readDirSync path) (\<lambda>it. io_bind (iterator_next it) (\<lambda>_. io_return ()))
              else io_return ())
           else if m = W_OK then
             (if isFile fileInfo then
                io_bind (openSync path OpenWrite) (\<lambda>file. close file)
              else if isDirectory fileInfo then
                io_bind Date_now (\<lambda>now.
                  io_bind (writeTextFileSync (tempPath_of path now) [])
                    (\<lambda>_. removeSync (tempPath_of path now)))
              else io_return ())
           else if m = X_OK then
             (if isDirectory fileInfo then
                io_bind (readDirSync path) (\<lambda>it. io_bind (iterator_next it) (\<lambda>_. io_return ()))
              else if isFile fileInfo then
                io_bind (isExecutableSync path) (\<lambda>isExecutable.
                  if \<not> isExecutable then io_throw (Error (eacces_message ''execute'' path) None)
                  else io_return ())
              else io_return ())
           else io_return ())"

definition accessSync :: "path \<Rightarrow> int option \<Rightarrow> unit io" where
  "accessSync path mode = io_catch (accessSync_try path mode) (access_catch path mode)"

text \<open>The try block of \<^verbatim>\<open>access\<close>.\<close>

definition access_try :: "path \<Rightarrow> int option \<Rightarrow> unit io" where
  "access_try path mode =
     io_bind (await (stat path)) (\<lambda>fileInfo.
       case mode of
         None \<Rightarrow> io_return ()
       | Some m \<Rightarrow>
           if m = R_OK then
             (if isFile fileInfo then
                await (promise_then (open_file path OpenRead) (\<lambda>file. close file))
              else if isDirectory fileInfo then
                io_bind (await (readDir path)) (\<lambda>it. io_bind (await (iterator_next it)) (\<lambda>_. io_return ()))
              else io_return ())
           else if m = W_OK then
             (if isFile fileInfo then
                await (promise_then (open_file path OpenWrite) (\<lambda>file. close file))
              else if isDirectory fileInfo then
                io_bind Date_now (\<lambda>now.
                  await (promise_then (writeTextFile (tempPath_of path now) [])
                    (\<lambda>_. remove_entry (tempPath_of path now))))
              else io_return ())
           else if m = X_OK then
             (if isDirectory fileInfo then
                io_bind (await (readDir path)) (\<lambda>it. io_bind (await (iterator_next it)) (\<lambda>_. io_return ()))
              else if isFile fileInfo then
                io_bind (await (isExecutable path)) (\<lambda>executable.
                  if \<not> executable then io_throw (Error (eacces_message ''execute'' path) None)
                  else io_return ())
              else io_return ())
           else io_return ())"

definition access :: "path \<Rightarrow> int option \<Rightarrow> unit io" where
  "access path mode = io_catch (access_try path mode) (access_catch path mode)"

text \<open>The error that the catch block throws for a caught \<open>cause\<close>.\<close>

definition access_error :: "path \<Rightarrow> int option \<Rightarrow> exn \<Rightarrow> exn" where
  "access_error path mode cause =
     Error (if instanceof_NotFound cause then enoent_message path
            else eacces_message (AccessMode2String mode) path) (Some cause)"

text \<open>A computation that throws nothing but errors satisfying \<open>P\<close>.\<close>

definition throws_only :: "(exn \<Rightarrow> bool) \<Rightarrow> 'a io \<Rightarrow> bool" where
  "throws_only P m = (\<forall>w e. fst (m w) = Inl e \<longrightarrow> P e)"

section \<open>Example worlds\<close>

text \<open>
  A POSIX-like host: three regular files, a directory, a socket; \<^verbatim>\<open>secret.txt\<close> cannot
  be opened for reading; \<^verbatim>\<open>test -x\<close> exits with 0 on \<^verbatim>\<open>run.sh\<close> only.
\<close>

definition posix_world :: world where
  "posix_world =
     \<lparr>os = ''linux'', clock = 1700000000123,
      nodes = (\<lambda>_. None)
        (PathString ''README.md'' \<mapsto> \<lparr>isFile = True, isDirectory = False\<rparr>,
         PathString ''secret.txt'' \<mapsto> \<lparr>isFile = True, isDirectory = False\<rparr>,
         PathString ''run.sh'' \<mapsto> \<lparr>isFile = True, isDirectory = False\<rparr>,
         PathString ''docs'' \<mapsto> \<lparr>isFile = False, isDirectory = True\<rparr>,
         PathString ''events.sock'' \<mapsto> \<lparr>isFile = False, isDirectory = False\<rparr>),
      dir_entries = (\<lambda>_. [])(PathString ''docs'' := [''guide.md'']),
      fails = (\<lambda>_. None)(EvOpen (PathString ''secret.txt'') OpenRead \<mapsto> PermissionDenied),
      run_permission = (\<lambda>_. Granted),
      exit_code = (\<lambda>cmd args. if cmd = ''test'' \<and> args = [''-x'', ''run.sh''] then 0 else 1),
      trace = []\<rparr>"

text \<open>
  A Windows host: a batch file, an installer with an upper-case extension, a text file,
  and a directory whose name ends in \<^verbatim>\<open>.exe\<close>.
\<close>

definition windows_world :: world where
  "windows_world =
     \<lparr>os = ''windows'', clock = 1700000000123,
      nodes = (\<lambda>_. None)
        (PathString ''test.cmd'' \<mapsto> \<lparr>isFile = True, isDirectory = False\<rparr>,
         PathString ''Setup.EXE'' \<mapsto> \<lparr>isFile = True, isDirectory = False\<rparr>,
         PathString ''notes.txt'' \<mapsto> \<lparr>isFile = True, isDirectory = False\<rparr>,
         PathString ''tools.exe'' \<mapsto> \<lparr>isFile = False, isDirectory = True\<rparr>),
      dir_entries = (\<lambda>_. []),
      fails = (\<lambda>_. None),
      run_permission = (\<lambda>_. Prompt),
      exit_code = (\<lambda>_ _. 1),
      trace = []\<rparr>"

text \<open>
  The POSIX-like host at a moment when \<^verbatim>\<open>docs\<close> already holds an entry with the name
  that the write check derives from the clock.
\<close>

definition collision_world :: world where
  "collision_world =
     posix_world\<lparr>nodes := (nodes posix_world)
       (PathString ''docs/.deno_access_test_1700000000123'' \<mapsto> \<lparr>isFile = True, isDirectory = False\<rparr>)\<rparr>"

text \<open>
  The POSIX-like host started with the run permission granted for \<^verbatim>\<open>run.sh\<close> alone:
  the query for \<^verbatim>\<open>run.sh\<close> answers granted, and spawning \<^verbatim>\<open>test\<close> is refused.
\<close>

definition sandboxed_world :: world where
  "sandboxed_world =
     posix_world\<lparr>run_permission := (\<lambda>p. if p = PathString ''run.sh'' then Granted else Prompt),
                 fails := (\<lambda>ev. case ev of EvSpawn cmd args \<Rightarrow> Some NotCapable | _ \<Rightarrow> None)\<rparr>"

text \<open>
  The POSIX-like host asked about \<^verbatim>\<open>README.md/inner\<close>: no such entry exists, and
  since \<^verbatim>\<open>README.md\<close> is a regular file the stat fails with NotADirectory.
\<close>

definition nested_world :: world where
  "nested_world =
     posix_world\<lparr>fails := (fails posix_world)(EvStat (PathString ''README.md/inner'') \<mapsto> NotADirectory)\<rparr>"

section \<open>Running the primitives\<close>

lemmas async_defs = stat_def open_file_def readDir_def writeTextFile_def remove_entry_def
  query_run_def command_output_def

lemma modes_distinct:
  "R_OK \<noteq> W_OK" "R_OK \<noteq> X_OK" "W_OK \<noteq> X_OK" "W_OK \<noteq> R_OK" "X_OK \<noteq> R_OK" "X_OK \<noteq> W_OK"
  "F_OK \<noteq> R_OK" "F_OK \<noteq> W_OK" "F_OK \<noteq> X_OK"
  "R_OK \<noteq> F_OK" "W_OK \<noteq> F_OK" "X_OK \<noteq> F_OK"
  by (simp_all add: R_OK_def W_OK_def X_OK_def F_OK_def)

lemma statSync_ok:
  "nodes w p = Some info \<Longrightarrow> fails w (EvStat p) = None \<Longrightarrow>
   statSync p w = (Inr info, w\<lparr>trace := trace w @ [EvStat p]\<rparr>)"
  by (simp add: statSync_def on_entry_def record_event_def)

lemma statSync_missing:
  "nodes w p = None \<Longrightarrow> fails w (EvStat p) = None \<Longrightarrow>
   statSync p w = (Inl (DenoError NotFound), w\<lparr>trace := trace w @ [EvStat p]\<rparr>)"
  by (simp add: statSync_def on_entry_def record_event_def)

lemma io_bind_statSync_ok:
  "nodes w p = Some info \<Longrightarrow> fails w (EvStat p) = None \<Longrightarrow>
   io_bind (statSync p) f w = f info (w\<lparr>trace := trace w @ [EvStat p]\<rparr>)"
  by (simp add: io_bind_def statSync_ok)

lemma io_bind_Date_now: "io_bind Date_now f w = f (clock w) w"
  by (simp add: io_bind_def Date_now_def)

lemma openSync_run:
  "nodes w p = Some info \<Longrightarrow>
   openSync p opts w =
     (case fails w (EvOpen p opts) of
        None \<Rightarrow> (Inr (FsFile p opts), w\<lparr>trace := trace w @ [EvOpen p opts]\<rparr>)
      | Some e \<Rightarrow> (Inl (DenoError e), w\<lparr>trace := trace w @ [EvOpen p opts]\<rparr>))"
  by (simp add: openSync_def on_entry_def record_event_def split: option.splits)

lemma readDirSync_run:
  "nodes w p = Some info \<Longrightarrow>
   readDirSync p w =
     (case fails w (EvReadDir p) of
        None \<Rightarrow> (Inr (DirIterator p (dir_entries w p)), w\<lparr>trace := trace w @ [EvReadDir p]\<rparr>)
      | Some e \<Rightarrow> (Inl (DenoError e), w\<lparr>trace := trace w @ [EvReadDir p]\<rparr>))"
  by (simp add: readDirSync_def on_entry_def record_event_def split: option.splits)

lemma snd_statSync: "snd (statSync p w) = w\<lparr>trace := trace w @ [EvStat p]\<rparr>"
  by (simp add: statSync_def on_entry_def record_event_def Let_def split: option.splits)

lemma statSync_Inr:
  "fst (statSync p w) = Inr info \<Longrightarrow> nodes w p = Some info \<and> fails w (EvStat p) = None"
  by (auto simp add: statSync_def on_entry_def Let_def split: option.splits)

text \<open>Creating an absent entry and removing it again restores the namespace.\<close>

lemma scratch_round_trip:
  assumes "nodes w tmp = None" "fails w (EvWriteTextFile tmp []) = None" "fails w (EvRemove tmp) = None"
  shows "io_bind (writeTextFileSync tmp []) (\<lambda>_. removeSync tmp) w =
     (Inr (), w\<lparr>trace := trace w @ [EvWriteTextFile tmp [], EvRemove tmp]\<rparr>)"
proof -
  have "(nodes w)(tmp := None) = nodes w"
    using assms(1) by (simp add: fun_upd_idem)
  then show ?thesis
    using assms by (simp add: io_bind_def writeTextFileSync_def removeSync_def record_event_def)
qed

section \<open>The two calling conventions\<close>

lemma isExecutable_unfold: "isExecutable path = isExecutableSync path"
  unfolding isExecutable_def isExecutableSync_def await_def async_defs by (rule refl)

lemma access_try_unfold: "access_try path mode = accessSync_try path mode"
  unfolding access_try_def accessSync_try_def await_def promise_then_def async_defs
    isExecutable_unfold
  by (rule refl)

lemma access_unfold: "access path mode = accessSync path mode"
  by (simp add: access_def accessSync_def access_try_unfold)

text \<open>
  C8. For every path and mode, \<^verbatim>\<open>access\<close> and \<^verbatim>\<open>accessSync\<close> are the same computation,
  and so are \<^verbatim>\<open>isExecutable\<close> and \<^verbatim>\<open>isExecutableSync\<close>: in every world they make the
  same calls on the host in the same order, return or throw the same value with the same
  message, and leave the same world.
\<close>

theorem sync_async_same_decision_tree:
  "access path mode = accessSync path mode \<and> isExecutable path = isExecutableSync path"
  by (simp add: access_unfold isExecutable_unfold)

section \<open>The catch block\<close>

lemma access_catch_run: "access_catch path mode e w = (Inl (access_error path mode e), w)"
  by (simp add: access_catch_def access_error_def io_throw_def)

lemma accessSync_run:
  "accessSync path mode w =
     (case accessSync_try path mode w of
        (Inl e, w') \<Rightarrow> (Inl (access_error path mode e), w')
      | (Inr x, w') \<Rightarrow> (Inr x, w'))"
  by (simp add: accessSync_def io_catch_def access_catch_run split: prod.splits sum.splits)

lemma accessSync_try_stat_failure:
  "fst (statSync path w) = Inl e \<Longrightarrow>
   accessSync_try path mode w = (Inl e, w\<lparr>trace := trace w @ [EvStat path]\<rparr>)"
proof -
  assume "fst (statSync path w) = Inl e"
  then have "statSync path w = (Inl e, w\<lparr>trace := trace w @ [EvStat path]\<rparr>)"
    using snd_statSync [of path w] by (cases "statSync path w") simp
  then show ?thesis
    by (simp add: accessSync_try_def io_bind_def)
qed

lemma nested_world_fields:
  "nodes nested_world (PathString ''README.md/inner'') = None"
  "fails nested_world (EvStat (PathString ''README.md/inner'')) = Some NotADirectory"
  "trace nested_world = []"
  by (simp_all add: nested_world_def posix_world_def)

text \<open>
  C2 as stated fails: \<^verbatim>\<open>README.md/inner\<close> does not exist, its stat fails with
  NotADirectory, and both entry points throw the EACCES error, not the ENOENT one.
\<close>

theorem access_missing_path_not_enoent_counterexample:
  "nodes nested_world (PathString ''README.md/inner'') = None
   \<and> fst (statSync (PathString ''README.md/inner'') nested_world) = Inl (DenoError NotADirectory)
   \<and> fst (accessSync (PathString ''README.md/inner'') (Some F_OK) nested_world) =
       Inl (Error (''EACCES: permission denied, Exists '' @ [CHR 0x27] @ ''README.md/inner'' @ [CHR 0x27])
              (Some (DenoError NotADirectory)))
   \<and> fst (access (PathString ''README.md/inner'') (Some F_OK) nested_world) =
       Inl (Error (''EACCES: permission denied, Exists '' @ [CHR 0x27] @ ''README.md/inner'' @ [CHR 0x27])
              (Some (DenoError NotADirectory)))"
proof -
  have st: "fst (statSync (PathString ''README.md/inner'') nested_world) = Inl (DenoError NotADirectory)"
    by (simp add: statSync_def on_entry_def nested_world_fields)
  show ?thesis
    by (simp add: st nested_world_fields access_unfold accessSync_run
        accessSync_try_stat_failure [OF st] access_error_def eacces_message_def quote_def
        AccessMode2String_def)
qed

text \<open>
  C2, as the code has it. For every path whose stat throws the NotFound error of the
  runtime, and every mode (F_OK and an omitted mode included), \<^verbatim>\<open>accessSync\<close> and
  \<^verbatim>\<open>access\<close> make the stat call only and throw an Error with the message
  \<^verbatim>\<open>ENOENT: no such file or directory, access '<path>'\<close> whose cause is that NotFound.
  When the stat throws any other error, as it may for a path that does not exist, they
  throw the Error with the message \<^verbatim>\<open>EACCES: permission denied, <mode-name> '<path>'\<close>
  whose cause is the error of the stat.
\<close>

theorem access_stat_not_found:
  "(fst (statSync path w) = Inl (DenoError NotFound) \<longrightarrow>
      accessSync path mode w =
        (Inl (Error (''ENOENT: no such file or directory, access '' @ [CHR 0x27] @ toString path @ [CHR 0x27])
                    (Some (DenoError NotFound))),
         w\<lparr>trace := trace w @ [EvStat path]\<rparr>))
   \<and> (\<forall>e. fst (statSync path w) = Inl e \<and> e \<noteq> DenoError NotFound \<longrightarrow>
         accessSync path mode w =
           (Inl (Error (''EACCES: permission denied, '' @ AccessMode2String mode @ '' ''
                          @ [CHR 0x27] @ toString path @ [CHR 0x27])
                       (Some e)),
            w\<lparr>trace := trace w @ [EvStat path]\<rparr>))
   \<and> access path mode w = accessSync path mode w"
proof -
  have nf: "instanceof_NotFound e \<longleftrightarrow> e = DenoError NotFound" for e
    by (cases e rule: instanceof_NotFound.cases) simp_all
  show ?thesis
    by (simp add: accessSync_run accessSync_try_stat_failure access_error_def nf enoent_message_def
        eacces_message_def quote_def access_unfold)
qed

theorem access_stat_not_found_witness:
  "fst (statSync (PathString ''missing.txt'') posix_world) = Inl (DenoError NotFound)
   \<and> accessSync (PathString ''missing.txt'') (Some F_OK) posix_world =
       (Inl (Error (''ENOENT: no such file or directory, access '' @ [CHR 0x27] @ ''missing.txt'' @ [CHR 0x27])
                   (Some (DenoError NotFound))),
        posix_world\<lparr>trace := [EvStat (PathString ''missing.txt'')]\<rparr>)
   \<and> access (PathString ''missing.txt'') None posix_world =
       (Inl (Error (''ENOENT: no such file or directory, access '' @ [CHR 0x27] @ ''missing.txt'' @ [CHR 0x27])
                   (Some (DenoError NotFound))),
        posix_world\<lparr>trace := [EvStat (PathString ''missing.txt'')]\<rparr>)
   \<and> fst (statSync (PathString ''README.md/inner'') nested_world) = Inl (DenoError NotADirectory)
   \<and> accessSync (PathString ''README.md/inner'') None nested_world =
       (Inl (Error (''EACCES: permission denied,  '' @ [CHR 0x27] @ ''README.md/inner'' @ [CHR 0x27])
                   (Some (DenoError NotADirectory))),
        nested_world\<lparr>trace := [EvStat (PathString ''README.md/inner'')]\<rparr>)"
proof -
  have a: "fst (statSync (PathString ''missing.txt'') posix_world) = Inl (DenoError NotFound)"
    by (simp add: statSync_def on_entry_def posix_world_def)
  have b: "fst (statSync (PathString ''README.md/inner'') nested_world) = Inl (DenoError NotADirectory)"
    by (simp add: statSync_def on_entry_def nested_world_fields)
  have tr: "trace posix_world = []"
    by (simp add: posix_world_def)
  show ?thesis
    using access_stat_not_found [of "PathString ''missing.txt''" posix_world "Some F_OK"]
      access_stat_not_found [of "PathString ''missing.txt''" posix_world None]
      access_stat_not_found [of "PathString ''README.md/inner''" nested_world None]
    by (simp add: a b tr nested_world_fields AccessMode2String_def)
qed

section \<open>Example worlds, evaluated\<close>

lemma posix_world_fields:
  "os posix_world = ''linux''"
  "clock posix_world = 1700000000123"
  "trace posix_world = []"
  "run_permission posix_world p = Granted"
  by (simp_all add: posix_world_def)

lemma posix_world_nodes:
  "nodes posix_world (PathString ''README.md'') = Some \<lparr>isFile = True, isDirectory = False\<rparr>"
  "nodes posix_world (PathString ''secret.txt'') = Some \<lparr>isFile = True, isDirectory = False\<rparr>"
  "nodes posix_world (PathString ''run.sh'') = Some \<lparr>isFile = True, isDirectory = False\<rparr>"
  "nodes posix_world (PathString ''docs'') = Some \<lparr>isFile = False, isDirectory = True\<rparr>"
  "nodes posix_world (PathString ''events.sock'') = Some \<lparr>isFile = False, isDirectory = False\<rparr>"
  "nodes posix_world (PathString ''missing.txt'') = None"
  by (simp_all add: posix_world_def)

lemma posix_world_no_stat_failure: "fails posix_world (EvStat p) = None"
  by (simp add: posix_world_def)

lemma posix_world_fails:
  "fails posix_world (EvOpen (PathString ''secret.txt'') OpenRead) = Some PermissionDenied"
  "fails posix_world (EvOpen (PathString ''README.md'') opts) = None"
  "fails posix_world (EvReadDir p) = None"
  "fails posix_world (EvSpawn cmd args) = None"
  "fails posix_world (EvWriteTextFile p data) = None"
  "fails posix_world (EvRemove p) = None"
  by (simp_all add: posix_world_def)

lemma posix_world_exit_code:
  "exit_code posix_world ''test'' [''-x'', ''run.sh''] = 0"
  "exit_code posix_world ''test'' [''-x'', ''README.md''] = 1"
  by (simp_all add: posix_world_def)

lemma windows_world_fields:
  "os windows_world = ''windows''"
  "trace windows_world = []"
  "fails windows_world ev = None"
  by (simp_all add: windows_world_def)

lemma windows_world_nodes:
  "nodes windows_world (PathString ''test.cmd'') = Some \<lparr>isFile = True, isDirectory = False\<rparr>"
  "nodes windows_world (PathString ''Setup.EXE'') = Some \<lparr>isFile = True, isDirectory = False\<rparr>"
  "nodes windows_world (PathString ''notes.txt'') = Some \<lparr>isFile = True, isDirectory = False\<rparr>"
  "nodes windows_world (PathString ''tools.exe'') = Some \<lparr>isFile = False, isDirectory = True\<rparr>"
  by (simp_all add: windows_world_def)

lemma sandboxed_world_fields:
  "os sandboxed_world = ''linux''"
  "trace sandboxed_world = []"
  "nodes sandboxed_world = nodes posix_world"
  "fails sandboxed_world (EvStat p) = None"
  "fails sandboxed_world (EvSpawn cmd args) = Some NotCapable"
  "run_permission sandboxed_world (PathString ''run.sh'') = Granted"
  "run_permission sandboxed_world (PathString ''README.md'') = Prompt"
  by (simp_all add: sandboxed_world_def posix_world_def)

lemma collision_world_fields:
  "clock collision_world = 1700000000123"
  "trace collision_world = []"
  "fails collision_world = fails posix_world"
  "nodes collision_world (PathString ''docs'') = Some \<lparr>isFile = False, isDirectory = True\<rparr>"
  "nodes collision_world (PathString ''docs/.deno_access_test_1700000000123'') =
     Some \<lparr>isFile = True, isDirectory = False\<rparr>"
  by (simp_all add: collision_world_def posix_world_def)

lemma tempPath_of_docs:
  "tempPath_of (PathString ''docs'') 1700000000123 = PathString ''docs/.deno_access_test_1700000000123''"
  by (simp add: tempPath_of_def number_toString_def)

lemma lower_examples:
  "toLowerCase ''Setup.EXE'' = ''setup.exe''"
  "toLowerCase ''test.cmd'' = ''test.cmd''"
  "toLowerCase ''notes.txt'' = ''notes.txt''"
  "toLowerCase ''tools.exe'' = ''tools.exe''"
  by (simp_all add: toLowerCase_def lower_char_def)

section \<open>Modes that probe nothing\<close>

lemma try_no_probe:
  assumes "nodes w path = Some info" "fails w (EvStat path) = None"
    and "mode \<noteq> Some R_OK" "mode \<noteq> Some W_OK" "mode \<noteq> Some X_OK"
  shows "accessSync_try path mode w = (Inr (), w\<lparr>trace := trace w @ [EvStat path]\<rparr>)"
  using assms by (simp add: accessSync_try_def io_bind_statSync_ok io_return_def split: option.splits)

lemma try_other_kind:
  assumes "nodes w path = Some info" "fails w (EvStat path) = None"
    and "\<not> isFile info" "\<not> isDirectory info"
  shows "accessSync_try path mode w = (Inr (), w\<lparr>trace := trace w @ [EvStat path]\<rparr>)"
  using assms by (simp add: accessSync_try_def io_bind_statSync_ok io_return_def split: option.splits)

text \<open>
  A mode outside the four constants runs the same computation as an omitted mode, also
  when the stat fails: the switch falls to its default and the mode name is empty.
\<close>

lemma out_of_range_as_omitted:
  assumes "m \<noteq> F_OK" "m \<noteq> R_OK" "m \<noteq> W_OK" "m \<noteq> X_OK"
  shows "accessSync path (Some m) = accessSync path None"
proof -
  have "accessSync_try path (Some m) = accessSync_try path None"
    using assms by (simp add: accessSync_try_def)
  moreover have "access_catch path (Some m) = access_catch path None"
    using assms by (simp add: access_catch_def AccessMode2String_def fun_eq_iff)
  ultimately show ?thesis by (simp add: accessSync_def)
qed

text \<open>
  C4. For every path whose stat succeeds, \<^verbatim>\<open>accessSync\<close> and \<^verbatim>\<open>access\<close> called with
  F_OK, with no mode, or with a number that is none of the four constants make the stat
  call only and return, whatever the host would answer to any other operation; the
  outcome is the one of the call with the mode omitted.
\<close>

theorem access_existence_only:
  assumes "nodes w path = Some info" and "fails w (EvStat path) = None"
    and "mode = None \<or> mode = Some F_OK
         \<or> (\<exists>m. mode = Some m \<and> m \<noteq> F_OK \<and> m \<noteq> R_OK \<and> m \<noteq> W_OK \<and> m \<noteq> X_OK)"
  shows "accessSync path mode w = (Inr (), w\<lparr>trace := trace w @ [EvStat path]\<rparr>)
       \<and> access path mode w = (Inr (), w\<lparr>trace := trace w @ [EvStat path]\<rparr>)
       \<and> accessSync path mode w = accessSync path None w
       \<and> access path mode w = access path None w"
proof -
  have m: "mode \<noteq> Some R_OK" "mode \<noteq> Some W_OK" "mode \<noteq> Some X_OK"
    using assms(3) by (auto simp add: modes_distinct)
  have a: "accessSync path mode w = (Inr (), w\<lparr>trace := trace w @ [EvStat path]\<rparr>)"
    by (simp add: accessSync_run try_no_probe [OF assms(1,2) m])
  have b: "accessSync path None w = (Inr (), w\<lparr>trace := trace w @ [EvStat path]\<rparr>)"
    by (simp add: accessSync_run try_no_probe [OF assms(1,2)])
  show ?thesis by (simp add: a b access_unfold)
qed

theorem access_existence_only_witness:
  "nodes posix_world (PathString ''secret.txt'') = Some \<lparr>isFile = True, isDirectory = False\<rparr>
   \<and> fails posix_world (EvStat (PathString ''secret.txt'')) = None
   \<and> accessSync (PathString ''secret.txt'') (Some 7) posix_world =
       (Inr (), posix_world\<lparr>trace := [EvStat (PathString ''secret.txt'')]\<rparr>)
   \<and> access (PathString ''secret.txt'') (Some 7) posix_world =
       (Inr (), posix_world\<lparr>trace := [EvStat (PathString ''secret.txt'')]\<rparr>)
   \<and> accessSync (PathString ''secret.txt'') None posix_world =
       (Inr (), posix_world\<lparr>trace := [EvStat (PathString ''secret.txt'')]\<rparr>)"
proof -
  have m: "Some (7::int) = None \<or> Some (7::int) = Some F_OK
       \<or> (\<exists>m. Some (7::int) = Some m \<and> m \<noteq> F_OK \<and> m \<noteq> R_OK \<and> m \<noteq> W_OK \<and> m \<noteq> X_OK)"
    by (simp add: F_OK_def R_OK_def W_OK_def X_OK_def)
  show ?thesis
    using access_existence_only [OF posix_world_nodes(2) posix_world_no_stat_failure m]
    by (auto simp add: posix_world_nodes posix_world_no_stat_failure posix_world_fields)
qed

text \<open>
  C10. For every existing path that stat reports as neither a regular file nor a
  directory, \<^verbatim>\<open>accessSync\<close> and \<^verbatim>\<open>access\<close> make the stat call only and return, for
  every mode, R_OK, W_OK and X_OK included.
\<close>

theorem access_other_kind_no_probe:
  assumes "nodes w path = Some info" and "fails w (EvStat path) = None"
    and "\<not> isFile info" and "\<not> isDirectory info"
  shows "accessSync path mode w = (Inr (), w\<lparr>trace := trace w @ [EvStat path]\<rparr>)
       \<and> access path mode w = (Inr (), w\<lparr>trace := trace w @ [EvStat path]\<rparr>)"
  by (simp add: access_unfold accessSync_run try_other_kind [OF assms])

theorem access_other_kind_no_probe_witness:
  "nodes posix_world (PathString ''events.sock'') = Some \<lparr>isFile = False, isDirectory = False\<rparr>
   \<and> fails posix_world (EvStat (PathString ''events.sock'')) = None
   \<and> accessSync (PathString ''events.sock'') (Some W_OK) posix_world =
       (Inr (), posix_world\<lparr>trace := [EvStat (PathString ''events.sock'')]\<rparr>)
   \<and> access (PathString ''events.sock'') (Some X_OK) posix_world =
       (Inr (), posix_world\<lparr>trace := [EvStat (PathString ''events.sock'')]\<rparr>)"
  using access_other_kind_no_probe [OF posix_world_nodes(5) posix_world_no_stat_failure, of "Some W_OK"]
    access_other_kind_no_probe [OF posix_world_nodes(5) posix_world_no_stat_failure, of "Some X_OK"]
  by (simp add: posix_world_nodes posix_world_no_stat_failure posix_world_fields)

section \<open>The probes of the try block\<close>

lemma try_open:
  assumes "nodes w path = Some info" "fails w (EvStat path) = None" "isFile info"
    and "(m = R_OK \<and> opts = OpenRead) \<or> (m = W_OK \<and> opts = OpenWrite)"
  shows "accessSync_try path (Some m) w =
     (case fails w (EvOpen path opts) of
        None \<Rightarrow> (Inr (), w\<lparr>trace := trace w @ [EvStat path, EvOpen path opts, EvClose (FsFile path opts)]\<rparr>)
      | Some e \<Rightarrow> (Inl (DenoError e), w\<lparr>trace := trace w @ [EvStat path, EvOpen path opts]\<rparr>))"
  using assms
  by (auto simp add: accessSync_try_def io_bind_def statSync_ok openSync_run close_def record_event_def modes_distinct
      split: option.splits)

lemma try_enumerate:
  assumes "nodes w path = Some info" "fails w (EvStat path) = None"
    and "(m = R_OK \<and> \<not> isFile info \<and> isDirectory info) \<or> (m = X_OK \<and> isDirectory info)"
  shows "accessSync_try path (Some m) w =
     (case fails w (EvReadDir path) of
        None \<Rightarrow> (Inr (), w\<lparr>trace := trace w @
                    [EvStat path, EvReadDir path, EvNext path (iter_next (dir_entries w path))]\<rparr>)
      | Some e \<Rightarrow> (Inl (DenoError e), w\<lparr>trace := trace w @ [EvStat path, EvReadDir path]\<rparr>))"
  using assms
  by (auto simp add: accessSync_try_def io_bind_def statSync_ok readDirSync_run io_return_def modes_distinct
      record_event_def split: option.splits)

lemma try_execute:
  assumes "nodes w path = Some info" "fails w (EvStat path) = None" "\<not> isDirectory info" "isFile info"
  shows "accessSync_try path (Some X_OK) w =
     (case isExecutableSync path (w\<lparr>trace := trace w @ [EvStat path]\<rparr>) of
        (Inl e, w') \<Rightarrow> (Inl e, w')
      | (Inr b, w') \<Rightarrow> if b then (Inr (), w') else (Inl (Error (eacces_message ''execute'' path) None), w'))"
  using assms
  by (auto simp add: accessSync_try_def io_bind_def statSync_ok io_return_def io_throw_def modes_distinct
      split: option.splits prod.splits sum.splits)

lemma try_scratch:
  assumes "nodes w path = Some info" "fails w (EvStat path) = None" "\<not> isFile info" "isDirectory info"
    and "tmp = tempPath_of path (clock w)"
    and "nodes w tmp = None"
    and "fails w (EvWriteTextFile tmp []) = None" "fails w (EvRemove tmp) = None"
  shows "accessSync_try path (Some W_OK) w =
     (Inr (), w\<lparr>trace := trace w @ [EvStat path, EvWriteTextFile tmp [], EvRemove tmp]\<rparr>)"
proof -
  let ?w1 = "w\<lparr>trace := trace w @ [EvStat path]\<rparr>"
  have "io_bind (writeTextFileSync tmp []) (\<lambda>_. removeSync tmp) ?w1 =
     (Inr (), ?w1\<lparr>trace := trace ?w1 @ [EvWriteTextFile tmp [], EvRemove tmp]\<rparr>)"
    by (rule scratch_round_trip) (use assms in simp_all)
  then show ?thesis
    using assms
    by (simp add: accessSync_try_def io_bind_statSync_ok modes_distinct io_bind_Date_now)
qed

text \<open>
  A directory write check whose scratch name is already taken: the entry is written over
  and then removed.
\<close>

lemma scratch_overwrite:
  assumes "fails w (EvWriteTextFile tmp []) = None" "fails w (EvRemove tmp) = None"
  shows "io_bind (writeTextFileSync tmp []) (\<lambda>_. removeSync tmp) w =
     (Inr (), w\<lparr>trace := trace w @ [EvWriteTextFile tmp [], EvRemove tmp],
                  nodes := (nodes w)(tmp := None)\<rparr>)"
  using assms
  by (cases "nodes w tmp")
    (simp_all add: io_bind_def writeTextFileSync_def removeSync_def record_event_def)

lemma try_scratch_overwrite:
  assumes "nodes w path = Some info" "fails w (EvStat path) = None" "\<not> isFile info" "isDirectory info"
    and "tmp = tempPath_of path (clock w)"
    and "fails w (EvWriteTextFile tmp []) = None" "fails w (EvRemove tmp) = None"
  shows "accessSync_try path (Some W_OK) w =
     (Inr (), w\<lparr>trace := trace w @ [EvStat path, EvWriteTextFile tmp [], EvRemove tmp],
                  nodes := (nodes w)(tmp := None)\<rparr>)"
proof -
  let ?w1 = "w\<lparr>trace := trace w @ [EvStat path]\<rparr>"
  have "io_bind (writeTextFileSync tmp []) (\<lambda>_. removeSync tmp) ?w1 =
     (Inr (), ?w1\<lparr>trace := trace ?w1 @ [EvWriteTextFile tmp [], EvRemove tmp],
                    nodes := (nodes ?w1)(tmp := None)\<rparr>)"
    by (rule scratch_overwrite) (use assms in simp_all)
  then show ?thesis
    using assms
    by (simp add: accessSync_try_def io_bind_statSync_ok modes_distinct io_bind_Date_now)
qed

lemma isExecutableSync_run:
  assumes "nodes w path = Some info" "fails w (EvStat path) = None"
  shows "isExecutableSync path w =
     (if \<not> isFile info then (Inr False, w\<lparr>trace := trace w @ [EvStat path]\<rparr>)
      else if os w = ''windows'' then
        (Inr (list_ex (endsWith (toLowerCase (toString path))) execExtensions), w\<lparr>trace := trace w @ [EvStat path]\<rparr>)
      else if run_permission w path \<noteq> Granted then
        (Inr False, w\<lparr>trace := trace w @ [EvStat path, EvQueryRun path]\<rparr>)
      else case fails w (EvSpawn ''test'' [''-x'', toString path]) of
          None \<Rightarrow> (Inr (exit_code w ''test'' [''-x'', toString path] = 0),
                    w\<lparr>trace := trace w @ [EvStat path, EvQueryRun path, EvSpawn ''test'' [''-x'', toString path]]\<rparr>)
        | Some e \<Rightarrow> (Inl (DenoError e),
                    w\<lparr>trace := trace w @ [EvStat path, EvQueryRun path, EvSpawn ''test'' [''-x'', toString path]]\<rparr>))"
  using assms
  by (simp add: isExecutableSync_def io_bind_def statSync_ok io_return_def build_os_def querySync_run_def
      outputSync_def record_event_def split: option.splits)

lemma io_bind_Inl: "fst (m w) = Inl e \<Longrightarrow> fst (io_bind m f w) = Inl e"
  by (cases "m w") (simp add: io_bind_def)

lemma isExecutableSync_stat_failure:
  "fst (statSync path w) = Inl e \<Longrightarrow> fst (isExecutableSync path w) = Inl e"
  by (simp add: isExecutableSync_def io_bind_Inl)

lemma isExecutableSync_throws_DenoError:
  "fst (isExecutableSync path w) = Inl e \<Longrightarrow> \<exists>c. e = DenoError c"
  by (auto simp add: isExecutableSync_def io_bind_def statSync_def on_entry_def io_return_def build_os_def
      querySync_run_def outputSync_def Let_def split: option.splits if_splits)

text \<open>
  What the try block can throw: an error of the runtime, or the error of the X_OK branch.
\<close>

lemma throws_only_bind:
  "throws_only P m \<Longrightarrow> (\<And>x. throws_only P (f x)) \<Longrightarrow> throws_only P (io_bind m f)"
  by (auto simp add: throws_only_def io_bind_def split: prod.splits sum.splits) (metis fst_conv)+

lemma throws_only_return: "throws_only P (io_return x)"
  by (simp add: throws_only_def io_return_def)

lemma throws_only_throw: "P e \<Longrightarrow> throws_only P (io_throw e)"
  by (simp add: throws_only_def io_throw_def)

lemma throws_only_if:
  "(b \<Longrightarrow> throws_only P m) \<Longrightarrow> (\<not> b \<Longrightarrow> throws_only P n) \<Longrightarrow> throws_only P (if b then m else n)"
  by simp

lemma throws_only_prims:
  assumes "\<And>c. P (DenoError c)"
  shows "throws_only P (statSync p)" "throws_only P (openSync p opts)" "throws_only P (close file)"
    "throws_only P (readDirSync p)" "throws_only P (writeTextFileSync p data)" "throws_only P (removeSync p)"
    "throws_only P Date_now" "throws_only P (isExecutableSync p)"
  using assms
  by (auto simp add: throws_only_def statSync_def openSync_def close_def readDirSync_def writeTextFileSync_def
      removeSync_def Date_now_def on_entry_def Let_def split: option.splits
      dest!: isExecutableSync_throws_DenoError)

lemma throws_only_iterator_next: "throws_only P (iterator_next it)"
  by (cases it) (simp add: throws_only_def)

lemma accessSync_try_throws:
  "fst (accessSync_try path mode w) = Inl cause \<Longrightarrow>
   (\<exists>c. cause = DenoError c) \<or> cause = Error (eacces_message ''execute'' path) None"
proof -
  let ?P = "\<lambda>e. (\<exists>c. e = DenoError c) \<or> e = Error (eacces_message ''execute'' path) None"
  have "throws_only ?P (accessSync_try path mode)"
    unfolding accessSync_try_def
    by (intro throws_only_bind throws_only_prims throws_only_return throws_only_throw throws_only_if
        throws_only_iterator_next option.case_distrib [where h = "throws_only ?P", THEN iffD2])
       (auto split: option.splits intro!: throws_only_bind throws_only_prims throws_only_return
          throws_only_throw throws_only_if throws_only_iterator_next)
  then show "fst (accessSync_try path mode w) = Inl cause \<Longrightarrow> ?P cause"
    by (simp add: throws_only_def)
qed

section \<open>The execute-permission probe\<close>

text \<open>
  C6. On a platform other than Windows, for every regular file, \<^verbatim>\<open>isExecutableSync\<close> and
  \<^verbatim>\<open>isExecutable\<close> first query the run permission for the path; when its state is not
  granted they return false and spawn nothing; otherwise they spawn \<^verbatim>\<open>test -x <path>\<close>
  and return true exactly when its exit code is 0 (a spawn that the host refuses is
  thrown on).
\<close>

theorem isExecutable_posix:
  assumes "os w \<noteq> ''windows''" and "nodes w path = Some info" and "fails w (EvStat path) = None"
    and "isFile info"
  shows "isExecutableSync path w =
          (if run_permission w path \<noteq> Granted
           then (Inr False, w\<lparr>trace := trace w @ [EvStat path, EvQueryRun path]\<rparr>)
           else case fails w (EvSpawn ''test'' [''-x'', toString path]) of
                  None \<Rightarrow>
                    (Inr (exit_code w ''test'' [''-x'', toString path] = 0),
                     w\<lparr>trace := trace w @
                        [EvStat path, EvQueryRun path, EvSpawn ''test'' [''-x'', toString path]]\<rparr>)
                | Some e \<Rightarrow>
                    (Inl (DenoError e),
                     w\<lparr>trace := trace w @
                        [EvStat path, EvQueryRun path, EvSpawn ''test'' [''-x'', toString path]]\<rparr>))
       \<and> isExecutable path w = isExecutableSync path w"
  using assms by (simp add: isExecutableSync_run [OF assms(2,3)] isExecutable_unfold)

theorem isExecutable_posix_witness:
  "os posix_world \<noteq> ''windows''
   \<and> isExecutableSync (PathString ''run.sh'') posix_world =
       (Inr True, posix_world\<lparr>trace := [EvStat (PathString ''run.sh''), EvQueryRun (PathString ''run.sh''),
                                          EvSpawn ''test'' [''-x'', ''run.sh'']]\<rparr>)
   \<and> isExecutable (PathString ''README.md'') posix_world =
       (Inr False, posix_world\<lparr>trace := [EvStat (PathString ''README.md''), EvQueryRun (PathString ''README.md''),
                                          EvSpawn ''test'' [''-x'', ''README.md'']]\<rparr>)
   \<and> isExecutableSync (PathString ''README.md'') sandboxed_world =
       (Inr False, sandboxed_world\<lparr>trace := [EvStat (PathString ''README.md''), EvQueryRun (PathString ''README.md'')]\<rparr>)"
  using isExecutable_posix [of posix_world "PathString ''run.sh''" "\<lparr>isFile = True, isDirectory = False\<rparr>"]
    isExecutable_posix [of posix_world "PathString ''README.md''" "\<lparr>isFile = True, isDirectory = False\<rparr>"]
    isExecutable_posix [of sandboxed_world "PathString ''README.md''" "\<lparr>isFile = True, isDirectory = False\<rparr>"]
  by (simp add: posix_world_fields posix_world_nodes posix_world_no_stat_failure posix_world_fails
      posix_world_exit_code sandboxed_world_fields)

text \<open>
  C7, as the code has it. On Windows, \<^verbatim>\<open>isExecutableSync\<close> and \<^verbatim>\<open>isExecutable\<close> first
  stat the path, and a failing stat is thrown on. When the stat succeeds they return true
  exactly when it reports a regular file and the lower-cased path string ends with
  \<^verbatim>\<open>.exe\<close>, \<^verbatim>\<open>.cmd\<close>, \<^verbatim>\<open>.bat\<close> or \<^verbatim>\<open>.com\<close>. In both cases the stat is their
  only call on the host: no permission query, no subprocess.
\<close>

theorem isExecutable_windows:
  assumes "os w = ''windows''"
  shows "(\<forall>e. fst (statSync path w) = Inl e \<longrightarrow>
            isExecutableSync path w = (Inl e, w\<lparr>trace := trace w @ [EvStat path]\<rparr>))
       \<and> (\<forall>info. fst (statSync path w) = Inr info \<longrightarrow>
            isExecutableSync path w =
              (Inr (isFile info \<and>
                    (endsWith (toLowerCase (toString path)) ''.exe''
                     \<or> endsWith (toLowerCase (toString path)) ''.cmd''
                     \<or> endsWith (toLowerCase (toString path)) ''.bat''
                     \<or> endsWith (toLowerCase (toString path)) ''.com'')),
               w\<lparr>trace := trace w @ [EvStat path]\<rparr>))
       \<and> isExecutable path w = isExecutableSync path w"
proof -
  have a: "isExecutableSync path w = (Inl e, w\<lparr>trace := trace w @ [EvStat path]\<rparr>)"
    if "fst (statSync path w) = Inl e" for e
  proof -
    have "statSync path w = (Inl e, w\<lparr>trace := trace w @ [EvStat path]\<rparr>)"
      using that snd_statSync [of path w] by (cases "statSync path w") simp
    then show ?thesis
      by (simp add: isExecutableSync_def io_bind_def)
  qed
  have b: "isExecutableSync path w =
              (Inr (isFile info \<and>
                    (endsWith (toLowerCase (toString path)) ''.exe''
                     \<or> endsWith (toLowerCase (toString path)) ''.cmd''
                     \<or> endsWith (toLowerCase (toString path)) ''.bat''
                     \<or> endsWith (toLowerCase (toString path)) ''.com'')),
               w\<lparr>trace := trace w @ [EvStat path]\<rparr>)"
    if "fst (statSync path w) = Inr info" for info
    using assms statSync_Inr [OF that]
    by (simp add: isExecutableSync_run [of w path info] execExtensions_def)
  show ?thesis
    using a b by (simp add: isExecutable_unfold)
qed

theorem isExecutable_windows_witness:
  "os windows_world = ''windows''
   \<and> fst (statSync (PathString ''Setup.EXE'') windows_world) = Inr \<lparr>isFile = True, isDirectory = False\<rparr>
   \<and> isExecutableSync (PathString ''Setup.EXE'') windows_world =
       (Inr True, windows_world\<lparr>trace := [EvStat (PathString ''Setup.EXE'')]\<rparr>)
   \<and> isExecutable (PathString ''test.cmd'') windows_world =
       (Inr True, windows_world\<lparr>trace := [EvStat (PathString ''test.cmd'')]\<rparr>)
   \<and> isExecutableSync (PathString ''notes.txt'') windows_world =
       (Inr False, windows_world\<lparr>trace := [EvStat (PathString ''notes.txt'')]\<rparr>)
   \<and> fst (statSync (PathString ''ghost.exe'') windows_world) = Inl (DenoError NotFound)
   \<and> isExecutableSync (PathString ''ghost.exe'') windows_world =
       (Inl (DenoError NotFound), windows_world\<lparr>trace := [EvStat (PathString ''ghost.exe'')]\<rparr>)"
proof -
  have g: "nodes windows_world (PathString ''ghost.exe'') = None"
    by (simp add: windows_world_def)
  have st: "fst (statSync (PathString ''Setup.EXE'') windows_world) = Inr \<lparr>isFile = True, isDirectory = False\<rparr>"
    "fst (statSync (PathString ''test.cmd'') windows_world) = Inr \<lparr>isFile = True, isDirectory = False\<rparr>"
    "fst (statSync (PathString ''notes.txt'') windows_world) = Inr \<lparr>isFile = True, isDirectory = False\<rparr>"
    "fst (statSync (PathString ''ghost.exe'') windows_world) = Inl (DenoError NotFound)"
    by (simp_all add: statSync_ok statSync_missing g windows_world_nodes windows_world_fields)
  show ?thesis
    using isExecutable_windows [OF windows_world_fields(1), of "PathString ''Setup.EXE''"]
      isExecutable_windows [OF windows_world_fields(1), of "PathString ''test.cmd''"]
      isExecutable_windows [OF windows_world_fields(1), of "PathString ''notes.txt''"]
      isExecutable_windows [OF windows_world_fields(1), of "PathString ''ghost.exe''"]
    by (simp add: st windows_world_fields lower_examples endsWith_def)
qed

text \<open>
  C7 as stated fails: the probe does stat the path, and for a directory named
  \<^verbatim>\<open>tools.exe\<close> it returns false although the extension is on the list.
\<close>

theorem isExecutable_windows_directory_counterexample:
  "endsWith (toLowerCase (toString (PathString ''tools.exe''))) ''.exe''
   \<and> isExecutableSync (PathString ''tools.exe'') windows_world =
       (Inr False, windows_world\<lparr>trace := [EvStat (PathString ''tools.exe'')]\<rparr>)
   \<and> isExecutable (PathString ''tools.exe'') windows_world =
       (Inr False, windows_world\<lparr>trace := [EvStat (PathString ''tools.exe'')]\<rparr>)"
  by (simp add: isExecutableSync_run [OF windows_world_nodes(4) windows_world_fields(3)] isExecutable_unfold
      windows_world_fields lower_examples endsWith_def)

section \<open>The example worlds under the probe\<close>

lemma isExecutableSync_run_sh:
  "isExecutableSync (PathString ''run.sh'') (posix_world\<lparr>trace := tr\<rparr>) =
     (Inr True, posix_world\<lparr>trace := tr @ [EvStat (PathString ''run.sh''), EvQueryRun (PathString ''run.sh''),
        EvSpawn ''test'' [''-x'', ''run.sh'']]\<rparr>)"
  by (simp add: isExecutableSync_run [of _ _ "\<lparr>isFile = True, isDirectory = False\<rparr>"]
      posix_world_nodes posix_world_no_stat_failure posix_world_fields posix_world_fails posix_world_exit_code)

lemma isExecutableSync_README:
  "isExecutableSync (PathString ''README.md'') (posix_world\<lparr>trace := tr\<rparr>) =
     (Inr False, posix_world\<lparr>trace := tr @ [EvStat (PathString ''README.md''), EvQueryRun (PathString ''README.md''),
        EvSpawn ''test'' [''-x'', ''README.md'']]\<rparr>)"
  by (simp add: isExecutableSync_run [of _ _ "\<lparr>isFile = True, isDirectory = False\<rparr>"]
      posix_world_nodes posix_world_no_stat_failure posix_world_fields posix_world_fails posix_world_exit_code)

section \<open>Probe selection\<close>

text \<open>
  C1 as stated fails: permission-denied is raised for X_OK on a regular file also when
  the probe does not return false. With the run permission granted for \<^verbatim>\<open>run.sh\<close> but
  not for \<^verbatim>\<open>test\<close>, the probe throws NotCapable, and the check throws the EACCES error.
\<close>

theorem access_execute_probe_throws_counterexample:
  "nodes sandboxed_world (PathString ''run.sh'') = Some \<lparr>isFile = True, isDirectory = False\<rparr>
   \<and> fst (isExecutableSync (PathString ''run.sh'')
            (sandboxed_world\<lparr>trace := [EvStat (PathString ''run.sh'')]\<rparr>)) = Inl (DenoError NotCapable)
   \<and> fst (accessSync (PathString ''run.sh'') (Some X_OK) sandboxed_world) =
       Inl (Error (''EACCES: permission denied, Executable '' @ [CHR 0x27] @ ''run.sh'' @ [CHR 0x27])
              (Some (DenoError NotCapable)))
   \<and> fst (access (PathString ''run.sh'') (Some X_OK) sandboxed_world) =
       Inl (Error (''EACCES: permission denied, Executable '' @ [CHR 0x27] @ ''run.sh'' @ [CHR 0x27])
              (Some (DenoError NotCapable)))"
proof -
  have p: "isExecutableSync (PathString ''run.sh'') (sandboxed_world\<lparr>trace := [EvStat (PathString ''run.sh'')]\<rparr>) =
      (Inl (DenoError NotCapable),
       sandboxed_world\<lparr>trace := [EvStat (PathString ''run.sh''), EvStat (PathString ''run.sh''),
          EvQueryRun (PathString ''run.sh''), EvSpawn ''test'' [''-x'', ''run.sh'']]\<rparr>)"
    by (simp add: isExecutableSync_run [of _ _ "\<lparr>isFile = True, isDirectory = False\<rparr>"]
        sandboxed_world_fields posix_world_nodes)
  have t: "accessSync_try (PathString ''run.sh'') (Some X_OK) sandboxed_world =
      (Inl (DenoError NotCapable),
       sandboxed_world\<lparr>trace := [EvStat (PathString ''run.sh''), EvStat (PathString ''run.sh''),
          EvQueryRun (PathString ''run.sh''), EvSpawn ''test'' [''-x'', ''run.sh'']]\<rparr>)"
    by (simp add: try_execute [of sandboxed_world _ "\<lparr>isFile = True, isDirectory = False\<rparr>"]
        sandboxed_world_fields posix_world_nodes p)
  show ?thesis
    by (simp add: p t accessSync_run access_unfold sandboxed_world_fields posix_world_nodes
        access_error_def AccessMode2String_def modes_distinct eacces_message_def quote_def)
qed

text \<open>
  C1, as the code has it. For every path whose stat succeeds, the access check runs the
  probe of the resolver table. R_OK on a regular file: open the path for reading, and
  close the file when the open succeeded. R_OK on a directory: read the directory and
  fetch one entry from the iterator, the first one or the end of an empty directory.
  W_OK on a regular file: open for writing, then close. X_OK on a directory: the
  enumeration of R_OK. X_OK on a regular file: the execute-permission probe, run after
  the stat; the call returns exactly when the probe returns true; when the probe returns
  false it throws the permission-denied error whose cause is the branch's own
  \<^verbatim>\<open>EACCES: permission denied, execute '<path>'\<close>; when the probe itself throws, it
  throws that failure as wrapped by the catch block (ENOENT for a NotFound, EACCES for
  anything else). An open or a directory read that the host fails is thrown on through
  the catch block in the same way. \<^verbatim>\<open>access\<close> does in every case what \<^verbatim>\<open>accessSync\<close>
  does.
\<close>

theorem access_selects_probe:
  assumes "nodes w path = Some info" and "fails w (EvStat path) = None"
  shows
   "(isFile info \<longrightarrow>
       accessSync path (Some R_OK) w =
         (case fails w (EvOpen path OpenRead) of
            None \<Rightarrow> (Inr (), w\<lparr>trace := trace w @
                        [EvStat path, EvOpen path OpenRead, EvClose (FsFile path OpenRead)]\<rparr>)
          | Some e \<Rightarrow> (Inl (access_error path (Some R_OK) (DenoError e)),
                        w\<lparr>trace := trace w @ [EvStat path, EvOpen path OpenRead]\<rparr>)))
  \<and> (\<not> isFile info \<and> isDirectory info \<longrightarrow>
       accessSync path (Some R_OK) w =
         (case fails w (EvReadDir path) of
            None \<Rightarrow> (Inr (), w\<lparr>trace := trace w @
                        [EvStat path, EvReadDir path,
                         EvNext path (case dir_entries w path of [] \<Rightarrow> None | entry # _ \<Rightarrow> Some entry)]\<rparr>)
          | Some e \<Rightarrow> (Inl (access_error path (Some R_OK) (DenoError e)),
                        w\<lparr>trace := trace w @ [EvStat path, EvReadDir path]\<rparr>)))
  \<and> (isFile info \<longrightarrow>
       accessSync path (Some W_OK) w =
         (case fails w (EvOpen path OpenWrite) of
            None \<Rightarrow> (Inr (), w\<lparr>trace := trace w @
                        [EvStat path, EvOpen path OpenWrite, EvClose (FsFile path OpenWrite)]\<rparr>)
          | Some e \<Rightarrow> (Inl (access_error path (Some W_OK) (DenoError e)),
                        w\<lparr>trace := trace w @ [EvStat path, EvOpen path OpenWrite]\<rparr>)))
  \<and> (isDirectory info \<longrightarrow>
       accessSync path (Some X_OK) w =
         (case fails w (EvReadDir path) of
            None \<Rightarrow> (Inr (), w\<lparr>trace := trace w @
                        [EvStat path, EvReadDir path,
                         EvNext path (case dir_entries w path of [] \<Rightarrow> None | entry # _ \<Rightarrow> Some entry)]\<rparr>)
          | Some e \<Rightarrow> (Inl (access_error path (Some X_OK) (DenoError e)),
                        w\<lparr>trace := trace w @ [EvStat path, EvReadDir path]\<rparr>)))
  \<and> (\<not> isDirectory info \<and> isFile info \<longrightarrow>
       accessSync path (Some X_OK) w =
         (case isExecutableSync path (w\<lparr>trace := trace w @ [EvStat path]\<rparr>) of
            (Inr executable, w') \<Rightarrow>
              if executable then (Inr (), w')
              else (Inl (Error (eacces_message ''Executable'' path)
                           (Some (Error (eacces_message ''execute'' path) None))), w')
          | (Inl e, w') \<Rightarrow> (Inl (access_error path (Some X_OK) e), w')))
  \<and> (\<not> isDirectory info \<and> isFile info \<longrightarrow>
       (fst (accessSync path (Some X_OK) w) = Inr ()
        \<longleftrightarrow> fst (isExecutableSync path (w\<lparr>trace := trace w @ [EvStat path]\<rparr>)) = Inr True))
  \<and> (\<forall>mode. access path mode w = accessSync path mode w)"
proof -
  note st = assms
  have nx: "iter_next xs = (case xs of [] \<Rightarrow> None | entry # _ \<Rightarrow> Some entry)" for xs :: "string list"
    by (cases xs) simp_all
  have r_file: "isFile info \<Longrightarrow> accessSync_try path (Some R_OK) w =
     (case fails w (EvOpen path OpenRead) of
        None \<Rightarrow> (Inr (), w\<lparr>trace := trace w @ [EvStat path, EvOpen path OpenRead, EvClose (FsFile path OpenRead)]\<rparr>)
      | Some e \<Rightarrow> (Inl (DenoError e), w\<lparr>trace := trace w @ [EvStat path, EvOpen path OpenRead]\<rparr>))"
    by (rule try_open [OF st]) simp_all
  have w_file: "isFile info \<Longrightarrow> accessSync_try path (Some W_OK) w =
     (case fails w (EvOpen path OpenWrite) of
        None \<Rightarrow> (Inr (), w\<lparr>trace := trace w @ [EvStat path, EvOpen path OpenWrite, EvClose (FsFile path OpenWrite)]\<rparr>)
      | Some e \<Rightarrow> (Inl (DenoError e), w\<lparr>trace := trace w @ [EvStat path, EvOpen path OpenWrite]\<rparr>))"
    by (rule try_open [OF st]) simp_all
  have r_dir: "\<not> isFile info \<and> isDirectory info \<Longrightarrow> accessSync_try path (Some R_OK) w =
     (case fails w (EvReadDir path) of
        None \<Rightarrow> (Inr (), w\<lparr>trace := trace w @
                    [EvStat path, EvReadDir path, EvNext path (iter_next (dir_entries w path))]\<rparr>)
      | Some e \<Rightarrow> (Inl (DenoError e), w\<lparr>trace := trace w @ [EvStat path, EvReadDir path]\<rparr>))"
    by (rule try_enumerate [OF st]) simp
  have x_dir: "isDirectory info \<Longrightarrow> accessSync_try path (Some X_OK) w =
     (case fails w (EvReadDir path) of
        None \<Rightarrow> (Inr (), w\<lparr>trace := trace w @
                    [EvStat path, EvReadDir path, EvNext path (iter_next (dir_entries w path))]\<rparr>)
      | Some e \<Rightarrow> (Inl (DenoError e), w\<lparr>trace := trace w @ [EvStat path, EvReadDir path]\<rparr>))"
    by (rule try_enumerate [OF st]) simp
  have x_file: "\<not> isDirectory info \<and> isFile info \<Longrightarrow> accessSync path (Some X_OK) w =
         (case isExecutableSync path (w\<lparr>trace := trace w @ [EvStat path]\<rparr>) of
            (Inr executable, w') \<Rightarrow>
              if executable then (Inr (), w')
              else (Inl (Error (eacces_message ''Executable'' path)
                           (Some (Error (eacces_message ''execute'' path) None))), w')
          | (Inl e, w') \<Rightarrow> (Inl (access_error path (Some X_OK) e), w'))"
    by (simp add: accessSync_run try_execute [OF st] access_error_def AccessMode2String_def modes_distinct
        split: prod.splits sum.splits)
  have x_iff: "\<not> isDirectory info \<and> isFile info \<Longrightarrow>
       (fst (accessSync path (Some X_OK) w) = Inr ()
        \<longleftrightarrow> fst (isExecutableSync path (w\<lparr>trace := trace w @ [EvStat path]\<rparr>)) = Inr True)"
    by (auto simp add: x_file split: prod.splits sum.splits if_splits)
  show ?thesis
    using r_file w_file r_dir x_dir x_file x_iff
    by (simp add: accessSync_run access_unfold nx split: option.splits)
qed

theorem access_selects_probe_witness:
  "accessSync (PathString ''README.md'') (Some R_OK) posix_world =
     (Inr (), posix_world\<lparr>trace := [EvStat (PathString ''README.md''), EvOpen (PathString ''README.md'') OpenRead,
        EvClose (FsFile (PathString ''README.md'') OpenRead)]\<rparr>)
   \<and> accessSync (PathString ''secret.txt'') (Some R_OK) posix_world =
     (Inl (Error (''EACCES: permission denied, Readable '' @ [CHR 0x27] @ ''secret.txt'' @ [CHR 0x27])
             (Some (DenoError PermissionDenied))),
      posix_world\<lparr>trace := [EvStat (PathString ''secret.txt''), EvOpen (PathString ''secret.txt'') OpenRead]\<rparr>)
   \<and> accessSync (PathString ''docs'') (Some R_OK) posix_world =
     (Inr (), posix_world\<lparr>trace := [EvStat (PathString ''docs''), EvReadDir (PathString ''docs''),
        EvNext (PathString ''docs'') (Some ''guide.md'')]\<rparr>)
   \<and> accessSync (PathString ''tools.exe'') (Some R_OK) windows_world =
     (Inr (), windows_world\<lparr>trace := [EvStat (PathString ''tools.exe''), EvReadDir (PathString ''tools.exe''),
        EvNext (PathString ''tools.exe'') None]\<rparr>)
   \<and> access (PathString ''README.md'') (Some W_OK) posix_world =
     (Inr (), posix_world\<lparr>trace := [EvStat (PathString ''README.md''), EvOpen (PathString ''README.md'') OpenWrite,
        EvClose (FsFile (PathString ''README.md'') OpenWrite)]\<rparr>)
   \<and> accessSync (PathString ''docs'') (Some X_OK) posix_world =
     (Inr (), posix_world\<lparr>trace := [EvStat (PathString ''docs''), EvReadDir (PathString ''docs''),
        EvNext (PathString ''docs'') (Some ''guide.md'')]\<rparr>)
   \<and> accessSync (PathString ''run.sh'') (Some X_OK) posix_world =
     (Inr (), posix_world\<lparr>trace := [EvStat (PathString ''run.sh''), EvStat (PathString ''run.sh''),
        EvQueryRun (PathString ''run.sh''), EvSpawn ''test'' [''-x'', ''run.sh'']]\<rparr>)
   \<and> accessSync (PathString ''README.md'') (Some X_OK) posix_world =
     (Inl (Error (''EACCES: permission denied, Executable '' @ [CHR 0x27] @ ''README.md'' @ [CHR 0x27])
             (Some (Error (''EACCES: permission denied, execute '' @ [CHR 0x27] @ ''README.md'' @ [CHR 0x27]) None))),
      posix_world\<lparr>trace := [EvStat (PathString ''README.md''), EvStat (PathString ''README.md''),
        EvQueryRun (PathString ''README.md''), EvSpawn ''test'' [''-x'', ''README.md'']]\<rparr>)"
proof -
  have d: "dir_entries posix_world (PathString ''docs'') = [''guide.md'']"
    "dir_entries windows_world (PathString ''tools.exe'') = []"
    by (simp_all add: posix_world_def windows_world_def)
  show ?thesis
    using access_selects_probe [OF posix_world_nodes(1) posix_world_no_stat_failure]
      access_selects_probe [OF posix_world_nodes(2) posix_world_no_stat_failure]
      access_selects_probe [OF posix_world_nodes(3) posix_world_no_stat_failure]
      access_selects_probe [OF posix_world_nodes(4) posix_world_no_stat_failure]
      access_selects_probe [OF windows_world_nodes(4) windows_world_fields(3)]
    by (simp add: d posix_world_fields posix_world_fails windows_world_fields
        isExecutableSync_run_sh isExecutableSync_README
        access_error_def AccessMode2String_def modes_distinct eacces_message_def quote_def)
qed

section \<open>Error normalization\<close>

lemma access_error_message:
  "access_error path mode cause =
     Error
       (if cause = DenoError NotFound
        then ''ENOENT: no such file or directory, access '' @ [CHR 0x27] @ toString path @ [CHR 0x27]
        else ''EACCES: permission denied, ''
             @ (if mode = Some F_OK then ''Exists''
                else if mode = Some R_OK then ''Readable''
                else if mode = Some W_OK then ''Writable''
                else if mode = Some X_OK then ''Executable''
                else [])
             @ '' '' @ [CHR 0x27] @ toString path @ [CHR 0x27])
       (Some cause)"
proof -
  have nf: "instanceof_NotFound cause \<longleftrightarrow> cause = DenoError NotFound"
    by (cases cause rule: instanceof_NotFound.cases) simp_all
  show ?thesis
    unfolding access_error_def nf enoent_message_def eacces_message_def quote_def AccessMode2String_def
    by simp
qed

text \<open>
  C3. For every call of \<^verbatim>\<open>accessSync\<close> or \<^verbatim>\<open>access\<close>: when the try block returns, so does
  the call; when the try block throws \<open>cause\<close>, the call throws an Error whose cause is
  \<open>cause\<close> itself, with the ENOENT message when \<open>cause\<close> is a NotFound of the runtime
  and otherwise with \<^verbatim>\<open>EACCES: permission denied, <mode-name> '<path>'\<close>, the mode name
  being Exists for F_OK, Readable for R_OK, Writable for W_OK, Executable for X_OK and
  empty for any other or no mode.
\<close>

theorem access_failure_normalized:
  "(case fst (accessSync_try path mode w) of
      Inr _ \<Rightarrow> fst (accessSync path mode w) = Inr ()
    | Inl cause \<Rightarrow>
        fst (accessSync path mode w) =
          Inl (Error
            (if cause = DenoError NotFound
             then ''ENOENT: no such file or directory, access '' @ [CHR 0x27] @ toString path @ [CHR 0x27]
             else ''EACCES: permission denied, ''
                  @ (if mode = Some F_OK then ''Exists''
                     else if mode = Some R_OK then ''Readable''
                     else if mode = Some W_OK then ''Writable''
                     else if mode = Some X_OK then ''Executable''
                     else [])
                  @ '' '' @ [CHR 0x27] @ toString path @ [CHR 0x27])
            (Some cause)))
   \<and> access_try path mode w = accessSync_try path mode w
   \<and> access path mode w = accessSync path mode w"
proof -
  obtain r w' where tr: "accessSync_try path mode w = (r, w')"
    by (cases "accessSync_try path mode w")
  have run: "fst (accessSync path mode w) = (case r of Inl e \<Rightarrow> Inl (access_error path mode e) | Inr x \<Rightarrow> Inr x)"
    by (simp add: accessSync_run tr split: sum.splits)
  have "(case r of
      Inr _ \<Rightarrow> fst (accessSync path mode w) = Inr ()
    | Inl cause \<Rightarrow> fst (accessSync path mode w) = Inl (access_error path mode cause))"
    by (simp add: run split: sum.splits)
  then show ?thesis
    by (simp only: tr fst_conv access_error_message access_try_unfold access_unfold simp_thms)
qed

theorem access_failure_normalized_witness:
  "fst (accessSync_try (PathString ''secret.txt'') (Some R_OK) posix_world) = Inl (DenoError PermissionDenied)
   \<and> fst (accessSync (PathString ''secret.txt'') (Some R_OK) posix_world) =
       Inl (Error (''EACCES: permission denied, Readable '' @ [CHR 0x27] @ ''secret.txt'' @ [CHR 0x27])
              (Some (DenoError PermissionDenied)))
   \<and> fst (accessSync_try (PathString ''run.sh'') (Some 8) sandboxed_world) = Inr ()
   \<and> fst (accessSync (PathString ''run.sh'') (Some 8) sandboxed_world) = Inr ()
   \<and> fst (accessSync_try (PathString ''run.sh'') (Some X_OK) sandboxed_world) = Inl (DenoError NotCapable)
   \<and> fst (access (PathString ''run.sh'') (Some X_OK) sandboxed_world) =
       Inl (Error (''EACCES: permission denied, Executable '' @ [CHR 0x27] @ ''run.sh'' @ [CHR 0x27])
              (Some (DenoError NotCapable)))"
proof -
  have a: "fst (accessSync_try (PathString ''secret.txt'') (Some R_OK) posix_world) = Inl (DenoError PermissionDenied)"
    by (simp add: try_open [OF posix_world_nodes(2) posix_world_no_stat_failure, of R_OK OpenRead]
        posix_world_fails)
  have m: "(8::int) \<noteq> F_OK" "(8::int) \<noteq> R_OK" "(8::int) \<noteq> W_OK" "(8::int) \<noteq> X_OK"
    by (simp_all add: F_OK_def R_OK_def W_OK_def X_OK_def)
  have b: "fst (accessSync_try (PathString ''run.sh'') (Some 8) sandboxed_world) = Inr ()"
    by (simp add: try_no_probe [of sandboxed_world _ "\<lparr>isFile = True, isDirectory = False\<rparr>"]
        sandboxed_world_fields posix_world_nodes m)
  have c: "fst (accessSync_try (PathString ''run.sh'') (Some X_OK) sandboxed_world) = Inl (DenoError NotCapable)"
    by (simp add: try_execute [of sandboxed_world _ "\<lparr>isFile = True, isDirectory = False\<rparr>"]
        isExecutableSync_run [of _ _ "\<lparr>isFile = True, isDirectory = False\<rparr>"]
        sandboxed_world_fields posix_world_nodes)
  show ?thesis
    using access_failure_normalized [of "PathString ''secret.txt''" "Some R_OK" posix_world]
      access_failure_normalized [of "PathString ''run.sh''" "Some 8" sandboxed_world]
      access_failure_normalized [of "PathString ''run.sh''" "Some X_OK" sandboxed_world]
    by (simp add: a b c m modes_distinct)
qed

section \<open>The execute-permission probe can throw\<close>

text \<open>
  C5 as stated fails: for a path that does not exist, \<^verbatim>\<open>isExecutableSync\<close> and
  \<^verbatim>\<open>isExecutable\<close> throw the NotFound of their stat.
\<close>

theorem isExecutable_missing_path_counterexample:
  "nodes posix_world (PathString ''missing.txt'') = None
   \<and> fst (isExecutableSync (PathString ''missing.txt'') posix_world) = Inl (DenoError NotFound)
   \<and> fst (isExecutable (PathString ''missing.txt'') posix_world) = Inl (DenoError NotFound)"
  by (simp add: isExecutable_unfold posix_world_nodes posix_world_no_stat_failure
      isExecutableSync_stat_failure [of "PathString ''missing.txt''" posix_world "DenoError NotFound"]
      statSync_missing)

text \<open>
  C5, as the code has it. The probe catches nothing. When its stat of the path fails it
  throws that failure. When the stat succeeds it returns false for what is not a regular
  file; for a regular file it returns, on Windows, whether the lower-cased path string
  ends with one of the four extensions; on any other platform it returns false when the
  run permission is not granted (that is no error), and with the permission granted it
  returns whether \<^verbatim>\<open>test -x\<close> exits with 0, or throws the failure of the spawn when the
  host refuses it. \<^verbatim>\<open>isExecutable\<close> does what \<^verbatim>\<open>isExecutableSync\<close> does.
\<close>

theorem isExecutable_returns_or_propagates:
  "(\<forall>e. fst (statSync path w) = Inl e \<longrightarrow> fst (isExecutableSync path w) = Inl e)
   \<and> (\<forall>info. fst (statSync path w) = Inr info \<longrightarrow>
         fst (isExecutableSync path w) =
           (if \<not> isFile info then Inr False
            else if os w = ''windows'' then
              Inr (endsWith (toLowerCase (toString path)) ''.exe''
                   \<or> endsWith (toLowerCase (toString path)) ''.cmd''
                   \<or> endsWith (toLowerCase (toString path)) ''.bat''
                   \<or> endsWith (toLowerCase (toString path)) ''.com'')
            else if run_permission w path \<noteq> Granted then Inr False
            else case fails w (EvSpawn ''test'' [''-x'', toString path]) of
                   None \<Rightarrow> Inr (exit_code w ''test'' [''-x'', toString path] = 0)
                 | Some c \<Rightarrow> Inl (DenoError c)))
   \<and> isExecutable path w = isExecutableSync path w"
proof -
  have b: "fst (isExecutableSync path w) =
           (if \<not> isFile info then Inr False
            else if os w = ''windows'' then
              Inr (endsWith (toLowerCase (toString path)) ''.exe''
                   \<or> endsWith (toLowerCase (toString path)) ''.cmd''
                   \<or> endsWith (toLowerCase (toString path)) ''.bat''
                   \<or> endsWith (toLowerCase (toString path)) ''.com'')
            else if run_permission w path \<noteq> Granted then Inr False
            else case fails w (EvSpawn ''test'' [''-x'', toString path]) of
                   None \<Rightarrow> Inr (exit_code w ''test'' [''-x'', toString path] = 0)
                 | Some c \<Rightarrow> Inl (DenoError c))"
    if "fst (statSync path w) = Inr info" for info
    using statSync_Inr [OF that]
    by (simp add: isExecutableSync_run [of w path info] execExtensions_def split: option.splits)
  show ?thesis
    using b by (simp add: isExecutableSync_stat_failure isExecutable_unfold)
qed

theorem isExecutable_returns_or_propagates_witness:
  "fst (statSync (PathString ''missing.txt'') posix_world) = Inl (DenoError NotFound)
   \<and> fst (isExecutableSync (PathString ''missing.txt'') posix_world) = Inl (DenoError NotFound)
   \<and> fst (statSync (PathString ''README.md'') sandboxed_world) = Inr \<lparr>isFile = True, isDirectory = False\<rparr>
   \<and> run_permission sandboxed_world (PathString ''README.md'') \<noteq> Granted
   \<and> fst (isExecutableSync (PathString ''README.md'') sandboxed_world) = Inr False
   \<and> fst (statSync (PathString ''run.sh'') sandboxed_world) = Inr \<lparr>isFile = True, isDirectory = False\<rparr>
   \<and> fst (isExecutableSync (PathString ''run.sh'') sandboxed_world) = Inl (DenoError NotCapable)
   \<and> fst (isExecutable (PathString ''run.sh'') posix_world) = Inr True
   \<and> fst (isExecutableSync (PathString ''docs'') posix_world) = Inr False
   \<and> fst (isExecutableSync (PathString ''Setup.EXE'') windows_world) = Inr True"
proof -
  have st: "fst (statSync (PathString ''missing.txt'') posix_world) = Inl (DenoError NotFound)"
    "fst (statSync (PathString ''README.md'') sandboxed_world) = Inr \<lparr>isFile = True, isDirectory = False\<rparr>"
    "fst (statSync (PathString ''run.sh'') sandboxed_world) = Inr \<lparr>isFile = True, isDirectory = False\<rparr>"
    "fst (statSync (PathString ''run.sh'') posix_world) = Inr \<lparr>isFile = True, isDirectory = False\<rparr>"
    "fst (statSync (PathString ''docs'') posix_world) = Inr \<lparr>isFile = False, isDirectory = True\<rparr>"
    "fst (statSync (PathString ''Setup.EXE'') windows_world) = Inr \<lparr>isFile = True, isDirectory = False\<rparr>"
    by (simp_all add: statSync_missing statSync_ok posix_world_nodes posix_world_no_stat_failure
        sandboxed_world_fields windows_world_nodes windows_world_fields)
  show ?thesis
    using isExecutable_returns_or_propagates [of "PathString ''missing.txt''" posix_world]
      isExecutable_returns_or_propagates [of "PathString ''README.md''" sandboxed_world]
      isExecutable_returns_or_propagates [of "PathString ''run.sh''" sandboxed_world]
      isExecutable_returns_or_propagates [of "PathString ''run.sh''" posix_world]
      isExecutable_returns_or_propagates [of "PathString ''docs''" posix_world]
      isExecutable_returns_or_propagates [of "PathString ''Setup.EXE''" windows_world]
    by (simp add: st posix_world_fields posix_world_fails posix_world_exit_code sandboxed_world_fields
        windows_world_fields lower_examples endsWith_def)
qed

section \<open>The write check on a directory\<close>

text \<open>
  C9, as the code has it. For every directory in which the host lets the scratch path
  \<^verbatim>\<open><path>/.deno_access_test_<Date.now()>\<close> be written and removed, a W_OK check writes
  an empty file at that path, removes the path, and returns; afterwards no entry of that
  name exists and every other entry is as before. When no entry of that name existed
  before the call, the namespace after the call is the one before it, so repeated calls
  accumulate nothing. \<^verbatim>\<open>access\<close> does what \<^verbatim>\<open>accessSync\<close> does.
\<close>

theorem access_directory_write_check:
  assumes "nodes w path = Some info" and "fails w (EvStat path) = None"
    and "\<not> isFile info" and "isDirectory info"
    and "tmp = PathString (toString path @ ''/.deno_access_test_'' @ number_toString (clock w))"
    and "fails w (EvWriteTextFile tmp []) = None" and "fails w (EvRemove tmp) = None"
  shows "accessSync path (Some W_OK) w =
           (Inr (), w\<lparr>trace := trace w @ [EvStat path, EvWriteTextFile tmp [], EvRemove tmp],
                        nodes := (nodes w)(tmp := None)\<rparr>)
       \<and> (nodes w tmp = None \<longrightarrow>
            accessSync path (Some W_OK) w =
              (Inr (), w\<lparr>trace := trace w @ [EvStat path, EvWriteTextFile tmp [], EvRemove tmp]\<rparr>))
       \<and> access path (Some W_OK) w = accessSync path (Some W_OK) w"
proof -
  have t: "tmp = tempPath_of path (clock w)"
    using assms(5) by (simp add: tempPath_of_def)
  have "accessSync path (Some W_OK) w =
           (Inr (), w\<lparr>trace := trace w @ [EvStat path, EvWriteTextFile tmp [], EvRemove tmp],
                        nodes := (nodes w)(tmp := None)\<rparr>)"
    by (simp add: accessSync_run try_scratch_overwrite [OF assms(1-4) t assms(6,7)])
  moreover have "accessSync path (Some W_OK) w =
           (Inr (), w\<lparr>trace := trace w @ [EvStat path, EvWriteTextFile tmp [], EvRemove tmp]\<rparr>)"
    if "nodes w tmp = None"
    by (simp add: accessSync_run try_scratch [OF assms(1-4) t that assms(6,7)])
  ultimately show ?thesis
    by (simp add: access_unfold)
qed

theorem access_directory_write_check_witness:
  "nodes posix_world (PathString ''docs'') = Some \<lparr>isFile = False, isDirectory = True\<rparr>
   \<and> PathString ''docs/.deno_access_test_1700000000123'' =
       PathString (toString (PathString ''docs'') @ ''/.deno_access_test_'' @ number_toString (clock posix_world))
   \<and> nodes posix_world (PathString ''docs/.deno_access_test_1700000000123'') = None
   \<and> accessSync (PathString ''docs'') (Some W_OK) posix_world =
       (Inr (), posix_world\<lparr>trace := [EvStat (PathString ''docs''),
          EvWriteTextFile (PathString ''docs/.deno_access_test_1700000000123'') [],
          EvRemove (PathString ''docs/.deno_access_test_1700000000123'')]\<rparr>)
   \<and> nodes (snd (access (PathString ''docs'') (Some W_OK) posix_world)) = nodes posix_world
   \<and> nodes (snd (accessSync (PathString ''docs'') (Some W_OK)
               (snd (accessSync (PathString ''docs'') (Some W_OK) posix_world)))) = nodes posix_world"
proof -
  let ?tmp = "PathString ''docs/.deno_access_test_1700000000123''"
  let ?w1 = "posix_world\<lparr>trace := [EvStat (PathString ''docs''), EvWriteTextFile ?tmp [], EvRemove ?tmp]\<rparr>"
  have t: "?tmp =
       PathString (toString (PathString ''docs'') @ ''/.deno_access_test_'' @ number_toString (clock posix_world))"
    by (simp add: posix_world_fields number_toString_def)
  have n: "nodes posix_world ?tmp = None"
    by (simp add: posix_world_def)
  have "accessSync (PathString ''docs'') (Some W_OK) posix_world =
      (Inr (), posix_world\<lparr>trace := trace posix_world @
         [EvStat (PathString ''docs''), EvWriteTextFile ?tmp [], EvRemove ?tmp]\<rparr>)"
    using access_directory_write_check
      [OF posix_world_nodes(4) posix_world_no_stat_failure _ _ t posix_world_fails(5) posix_world_fails(6)] n
    by (auto simp add: posix_world_fields)
  then have first: "accessSync (PathString ''docs'') (Some W_OK) posix_world = (Inr (), ?w1)"
    by (simp add: posix_world_fields)
  have t1: "?tmp =
       PathString (toString (PathString ''docs'') @ ''/.deno_access_test_'' @ number_toString (clock ?w1))"
    using t by simp
  have "accessSync (PathString ''docs'') (Some W_OK) ?w1 =
      (Inr (), ?w1\<lparr>trace := trace ?w1 @
         [EvStat (PathString ''docs''), EvWriteTextFile ?tmp [], EvRemove ?tmp]\<rparr>)"
    using access_directory_write_check
      [of ?w1 "PathString ''docs''" "\<lparr>isFile = False, isDirectory = True\<rparr>" ?tmp, OF _ _ _ _ t1] n
    by (auto simp add: posix_world_nodes posix_world_no_stat_failure posix_world_fails)
  then have second: "nodes (snd (accessSync (PathString ''docs'') (Some W_OK) ?w1)) = nodes posix_world"
    by simp
  show ?thesis
    by (simp add: first second n posix_world_nodes posix_world_fields number_toString_def access_unfold)
qed

text \<open>
  C9 as stated fails: the scratch name comes from the clock and need not be unique. In a
  directory that already holds an entry of that name, the check returns and the entry is
  gone.
\<close>

theorem access_directory_write_collision_counterexample:
  "nodes collision_world (PathString ''docs'') = Some \<lparr>isFile = False, isDirectory = True\<rparr>
   \<and> nodes collision_world (PathString ''docs/.deno_access_test_1700000000123'') =
       Some \<lparr>isFile = True, isDirectory = False\<rparr>
   \<and> fst (accessSync (PathString ''docs'') (Some W_OK) collision_world) = Inr ()
   \<and> trace (snd (accessSync (PathString ''docs'') (Some W_OK) collision_world)) =
       [EvStat (PathString ''docs''),
        EvWriteTextFile (PathString ''docs/.deno_access_test_1700000000123'') [],
        EvRemove (PathString ''docs/.deno_access_test_1700000000123'')]
   \<and> nodes (snd (accessSync (PathString ''docs'') (Some W_OK) collision_world))
        (PathString ''docs/.deno_access_test_1700000000123'') = None"
proof -
  have t: "PathString ''docs/.deno_access_test_1700000000123'' =
      tempPath_of (PathString ''docs'') (clock collision_world)"
    by (simp add: collision_world_fields tempPath_of_docs)
  have "accessSync_try (PathString ''docs'') (Some W_OK) collision_world =
     (Inr (), collision_world\<lparr>trace := trace collision_world @
        [EvStat (PathString ''docs''),
         EvWriteTextFile (PathString ''docs/.deno_access_test_1700000000123'') [],
         EvRemove (PathString ''docs/.deno_access_test_1700000000123'')],
       nodes := (nodes collision_world)(PathString ''docs/.deno_access_test_1700000000123'' := None)\<rparr>)"
    by (rule try_scratch_overwrite [OF collision_world_fields(4) _ _ _ t])
      (simp_all add: collision_world_fields posix_world_no_stat_failure posix_world_fails)
  then show ?thesis
    by (simp add: accessSync_run collision_world_fields)
qed

end
